theory Spec2Isabelle
  imports Main "HOL-Library.AList"
begin

section \<open>Values, documents and errors\<close>

text \<open>
  Go values of type \<open>any\<close> as they reach the BSON layer: identifiers, selector values,
  attribute values and the fields of stored documents. \<open>VDoc\<close> stands for the
  document-shaped values (\<open>bson.D\<close>, \<open>bson.M\<close>, \<open>map[string]any\<close>); \<open>VOid\<close> for an
  ObjectID generated by the driver; \<open>VChan\<close> for a Go value that has no BSON encoder
  (a channel, a function): marshalling it fails. A \<open>time.Time\<close> is an abstract instant.
\<close>

type_synonym time = nat

datatype val =
    VNil
  | VBool bool
  | VInt int
  | VStr string
  | VTime time
  | VOid nat
  | VDoc "(string \<times> val) list"
  | VChan

type_synonym document = "(string \<times> val) list"

fun encodable :: "val \<Rightarrow> bool" where
  "encodable VChan = False"
| "encodable (VDoc d) = list_all encodable (map snd d)"
| "encodable _ = True"

text \<open>
  Errors are values. \<open>ErrNoDocuments\<close> is \<open>mongo.ErrNoDocuments\<close>; \<open>ErrMarshalNull\<close>
  is the driver's \<open>MarshalError\<close> for an argument that encodes as null; \<open>ErrMsg\<close> is an
  error made by \<open>fmt.Errorf\<close> with the verb \<open>%s\<close> (a new error that only keeps the text);
  \<open>ErrWrap\<close> is an error that wraps another one (it has \<open>Unwrap\<close>), as driver errors may.
\<close>

datatype error =
    ErrNoDocuments
  | ErrContextCanceled
  | ErrNoEncoder
  | ErrMarshalNull
  | ErrDecode string
  | ErrDuplicateKey
  | ErrBadUpdate
  | ErrBadIndex
  | ErrUnreachable
  | ErrInvalidURI
  | ErrMsg string
  | ErrWrap string error

fun Error :: "error \<Rightarrow> string" where
  "Error ErrNoDocuments = ''mongo: no documents in result''"
| "Error ErrContextCanceled = ''context canceled''"
| "Error ErrNoEncoder = ''no encoder found''"
| "Error ErrMarshalNull = ''WriteNull can only write while positioned on a Element or Value but is positioned on a TopLevel''"
| "Error (ErrDecode m) = m"
| "Error ErrDuplicateKey = ''duplicate key error''"
| "Error ErrBadUpdate = ''update document must contain key beginning with $''"
| "Error ErrBadIndex = ''index keys cannot be empty''"
| "Error ErrUnreachable = ''server selection error''"
| "Error ErrInvalidURI = ''error parsing uri''"
| "Error (ErrMsg m) = m"
| "Error (ErrWrap m e) = m @ '': '' @ Error e"

fun errors_Is :: "error \<Rightarrow> error \<Rightarrow> bool" where
  "errors_Is (ErrWrap m e) target = (ErrWrap m e = target \<or> errors_Is e target)"
| "errors_Is e target = (e = target)"

definition fmt_Errorf :: "string \<Rightarrow> error \<Rightarrow> error" where
  "fmt_Errorf prefix err = ErrMsg (prefix @ Error err)"

section \<open>Cancellation contexts\<close>

text \<open>
  A \<open>context.Context\<close>: \<open>Background\<close> is \<open>context.Background()\<close>, never done; \<open>Ctx k d\<close>
  is a context made by the caller, identified by \<open>k\<close>, done (cancelled or past its
  deadline) when \<open>d\<close> holds.
\<close>

datatype gocontext = Background | Ctx nat bool

fun ctx_done :: "gocontext \<Rightarrow> bool" where
  "ctx_done Background = False"
| "ctx_done (Ctx k d) = d"

section \<open>The document store\<close>

text \<open>
  Modelled from the spec: the collection handle of the external document store
  (\<open>*mongo.Collection\<close> of the MongoDB driver, held in the controller's field \<open>db\<close>), whose
  code is not part of this repository. A collection is the sequence of its documents, the
  indexes created on it, whether its server answers, the counter of driver-generated
  identifiers, and the driver calls it has received, each with the context it was given.
  A selector is a set of field-equality constraints combined with logical AND; equality
  with null also holds for a field that is absent. Every driver call encodes its arguments
  first, then makes one round trip, which fails when the context is done or the server
  does not answer. Uniqueness is enforced for \<open>_id\<close> only; a cursor holds all matches.

  A \<open>bson.D\<close> (or \<open>bson.M\<close>) handed to the driver is \<open>None\<close> when it is nil, as the
  variable \<^verbatim>\<open>var filter bson.D\<close> is until something is appended to it; \<open>append\<close> to
  a nil \<open>bson.D\<close> gives the one with that single element.
\<close>

type_synonym bsonD = "document option"

fun elements :: "bsonD \<Rightarrow> document" where
  "elements None = []"
| "elements (Some d) = d"

definition append_E :: "bsonD \<Rightarrow> string \<times> val \<Rightarrow> bsonD" where
  "append_E d e = Some (elements d @ [e])"

datatype opname =
    OpInsertOne | OpFindOne | OpFind | OpUpdateOne | OpUpdateMany
  | OpDeleteOne | OpDeleteMany | OpCreateIndex

record collection =
  docs :: "document list"
  indexes :: "(string \<times> document \<times> bool) list"
  reachable :: bool
  next_oid :: nat
  calls :: "(opname \<times> gocontext) list"

definition record_call :: "opname \<Rightarrow> gocontext \<Rightarrow> collection \<Rightarrow> collection" where
  "record_call op ctx c = c\<lparr>calls := calls c @ [(op, ctx)]\<rparr>"

definition round_trip :: "gocontext \<Rightarrow> collection \<Rightarrow> error option" where
  "round_trip ctx c =
     (if ctx_done ctx then Some ErrContextCanceled
      else if \<not> reachable c then Some ErrUnreachable
      else None)"

definition bson_Marshal :: "document \<Rightarrow> error + document" where
  "bson_Marshal d = (if encodable (VDoc d) then Inr d else Inl ErrNoEncoder)"

text \<open>
  How the driver encodes a document argument. A nil \<open>bson.D\<close> is not a document: the
  encoder writes a nil slice as null, which cannot stand at the top level, and the driver
  returns a \<open>MarshalError\<close> before any round trip. A \<open>bson.D\<close> that is not nil is
  encoded element by element; with no element it is the empty document.
\<close>

definition marshal_arg :: "bsonD \<Rightarrow> error + document" where
  "marshal_arg a = (case a of None \<Rightarrow> Inl ErrMarshalNull | Some d \<Rightarrow> bson_Marshal d)"

definition bson_Unmarshal :: "document \<Rightarrow> error + document" where
  "bson_Unmarshal dataByte = Inr dataByte"

definition field_matches :: "document \<Rightarrow> string \<times> val \<Rightarrow> bool" where
  "field_matches d kv =
     (case map_of d (fst kv) of None \<Rightarrow> snd kv = VNil | Some w \<Rightarrow> w = snd kv)"

definition matches :: "document \<Rightarrow> document \<Rightarrow> bool" where
  "matches flt d = list_all (field_matches d) flt"

definition ensure_id :: "document \<Rightarrow> nat \<Rightarrow> document" where
  "ensure_id d n = (if map_of d ''_id'' = None then (''_id'', VOid n) # d else d)"

definition db_InsertOne ::
  "gocontext \<Rightarrow> ('a \<Rightarrow> error + document) \<Rightarrow> 'a \<Rightarrow> collection
     \<Rightarrow> (val option \<times> error option) \<times> collection" where
  "db_InsertOne ctx enc x c =
     (let c1 = record_call OpInsertOne ctx c in
      case enc x of
        Inl e \<Rightarrow> ((None, Some e), c1)
      | Inr d0 \<Rightarrow>
          (let d = ensure_id d0 (next_oid c1);
               c2 = c1\<lparr>next_oid := Suc (next_oid c1)\<rparr> in
           case round_trip ctx c2 of
             Some e \<Rightarrow> ((None, Some e), c2)
           | None \<Rightarrow>
               if list_ex (\<lambda>d'. map_of d' ''_id'' = map_of d ''_id'') (docs c2)
               then ((None, Some ErrDuplicateKey), c2)
               else ((map_of d ''_id'', None), c2\<lparr>docs := docs c2 @ [d]\<rparr>)))"

definition db_FindOne ::
  "gocontext \<Rightarrow> bsonD \<Rightarrow> collection \<Rightarrow> (error + document) \<times> collection" where
  "db_FindOne ctx flt c =
     (let c1 = record_call OpFindOne ctx c in
      case marshal_arg flt of
        Inl e \<Rightarrow> (Inl e, c1)
      | Inr f \<Rightarrow>
          (case round_trip ctx c1 of
             Some e \<Rightarrow> (Inl e, c1)
           | None \<Rightarrow>
               (case find (matches f) (docs c1) of
                  None \<Rightarrow> (Inl ErrNoDocuments, c1)
                | Some d \<Rightarrow> (Inr d, c1))))"

definition db_Find ::
  "gocontext \<Rightarrow> bsonD \<Rightarrow> collection \<Rightarrow> (error + document list) \<times> collection" where
  "db_Find ctx flt c =
     (let c1 = record_call OpFind ctx c in
      case marshal_arg flt of
        Inl e \<Rightarrow> (Inl e, c1)
      | Inr f \<Rightarrow>
          (case round_trip ctx c1 of
             Some e \<Rightarrow> (Inl e, c1)
           | None \<Rightarrow> (Inr (filter (matches f) (docs c1)), c1)))"

fun apply_set :: "document \<Rightarrow> document \<Rightarrow> document" where
  "apply_set [] d = d"
| "apply_set ((k, v) # kvs) d = apply_set kvs (AList.update k v d)"

fun update_fields :: "document \<Rightarrow> document option" where
  "update_fields [(k, VDoc sets)] = (if k = ''$set'' then Some sets else None)"
| "update_fields u = None"

fun update_first ::
  "(document \<Rightarrow> bool) \<Rightarrow> (document \<Rightarrow> document) \<Rightarrow> document list \<Rightarrow> document list" where
  "update_first P f [] = []"
| "update_first P f (d # ds) = (if P d then f d # ds else d # update_first P f ds)"

fun delete_first :: "(document \<Rightarrow> bool) \<Rightarrow> document list \<Rightarrow> document list" where
  "delete_first P [] = []"
| "delete_first P (d # ds) = (if P d then ds else d # delete_first P ds)"

definition db_UpdateOne ::
  "gocontext \<Rightarrow> bsonD \<Rightarrow> bsonD \<Rightarrow> collection
     \<Rightarrow> (nat \<times> error option) \<times> collection" where
  "db_UpdateOne ctx flt upd c =
     (let c1 = record_call OpUpdateOne ctx c in
      case marshal_arg flt of
        Inl e \<Rightarrow> ((0, Some e), c1)
      | Inr f \<Rightarrow>
          (case marshal_arg upd of
             Inl e \<Rightarrow> ((0, Some e), c1)
           | Inr u \<Rightarrow>
               (case update_fields u of
                  None \<Rightarrow> ((0, Some ErrBadUpdate), c1)
                | Some sets \<Rightarrow>
                    (case round_trip ctx c1 of
                       Some e \<Rightarrow> ((0, Some e), c1)
                     | None \<Rightarrow>
                         ((if list_ex (matches f) (docs c1) then 1 else 0, None),
                          c1\<lparr>docs := update_first (matches f) (apply_set sets) (docs c1)\<rparr>)))))"

definition db_UpdateMany ::
  "gocontext \<Rightarrow> bsonD \<Rightarrow> bsonD \<Rightarrow> collection
     \<Rightarrow> (nat \<times> error option) \<times> collection" where
  "db_UpdateMany ctx flt upd c =
     (let c1 = record_call OpUpdateMany ctx c in
      case marshal_arg flt of
        Inl e \<Rightarrow> ((0, Some e), c1)
      | Inr f \<Rightarrow>
          (case marshal_arg upd of
             Inl e \<Rightarrow> ((0, Some e), c1)
           | Inr u \<Rightarrow>
               (case update_fields u of
                  None \<Rightarrow> ((0, Some ErrBadUpdate), c1)
                | Some sets \<Rightarrow>
                    (case round_trip ctx c1 of
                       Some e \<Rightarrow> ((0, Some e), c1)
                     | None \<Rightarrow>
                         ((length (filter (matches f) (docs c1)), None),
                          c1\<lparr>docs := map (\<lambda>d. if matches f d then apply_set sets d else d)
                                          (docs c1)\<rparr>)))))"

definition db_DeleteOne ::
  "gocontext \<Rightarrow> bsonD \<Rightarrow> collection \<Rightarrow> (nat \<times> error option) \<times> collection" where
  "db_DeleteOne ctx flt c =
     (let c1 = record_call OpDeleteOne ctx c in
      case marshal_arg flt of
        Inl e \<Rightarrow> ((0, Some e), c1)
      | Inr f \<Rightarrow>
          (case round_trip ctx c1 of
             Some e \<Rightarrow> ((0, Some e), c1)
           | None \<Rightarrow>
               ((if list_ex (matches f) (docs c1) then 1 else 0, None),
                c1\<lparr>docs := delete_first (matches f) (docs c1)\<rparr>)))"

definition db_DeleteMany ::
  "gocontext \<Rightarrow> bsonD \<Rightarrow> collection \<Rightarrow> (nat \<times> error option) \<times> collection" where
  "db_DeleteMany ctx flt c =
     (let c1 = record_call OpDeleteMany ctx c in
      case marshal_arg flt of
        Inl e \<Rightarrow> ((0, Some e), c1)
      | Inr f \<Rightarrow>
          (case round_trip ctx c1 of
             Some e \<Rightarrow> ((0, Some e), c1)
           | None \<Rightarrow>
               ((length (filter (matches f) (docs c1)), None),
                c1\<lparr>docs := filter (\<lambda>d. \<not> matches f d) (docs c1)\<rparr>)))"

text \<open>
  The name the driver gives an index: the keys and their directions joined by
  underscores, as in \<open>email_1_age_-1\<close>.
\<close>

definition digit :: "nat \<Rightarrow> char" where
  "digit n = ''0123456789'' ! (n mod 10)"

fun digits :: "nat \<Rightarrow> string" where
  "digits n = (if n < 10 then [digit n] else digits (n div 10) @ [digit n])"

declare digits.simps [simp del]

fun show_val :: "val \<Rightarrow> string" where
  "show_val (VInt i) = (if i < 0 then ''-'' @ digits (nat (- i)) else digits (nat i))"
| "show_val (VStr s) = s"
| "show_val v = []"

fun index_name :: "document \<Rightarrow> string" where
  "index_name [] = []"
| "index_name [(k, v)] = k @ ''_'' @ show_val v"
| "index_name ((k, v) # rest) = k @ ''_'' @ show_val v @ ''_'' @ index_name rest"

record index_model =
  Keys :: bsonD
  Unique :: bool

definition db_CreateOne ::
  "gocontext \<Rightarrow> index_model \<Rightarrow> collection \<Rightarrow> (string \<times> error option) \<times> collection" where
  "db_CreateOne ctx m c =
     (let c1 = record_call OpCreateIndex ctx c in
      case marshal_arg (Keys m) of
        Inl e \<Rightarrow> (([], Some e), c1)
      | Inr keys \<Rightarrow>
          (case round_trip ctx c1 of
             Some e \<Rightarrow> (([], Some e), c1)
           | None \<Rightarrow>
               if keys = [] then (([], Some ErrBadIndex), c1)
               else
               (let name = index_name keys in
                if list_ex (\<lambda>ix. fst ix = name) (indexes c1) then ((name, None), c1)
                else ((name, None), c1\<lparr>indexes := indexes c1 @ [(name, keys, Unique m)]\<rparr>))))"

section \<open>The connector\<close>

text \<open>
  Modelled from the spec: the client of the external driver. The network answers a
  connection attempt and a ping for each connection string; it keeps the calls it received.
\<close>

datatype netcall = NetConnect gocontext string | NetPing gocontext string

record network =
  connect_error :: "string \<Rightarrow> error option"
  ping_error :: "string \<Rightarrow> error option"
  net_calls :: "netcall list"

record client =
  client_uri :: string

record database =
  db_client :: client
  db_name :: string

definition mongo_Connect ::
  "gocontext \<Rightarrow> string \<Rightarrow> network \<Rightarrow> (error + client) \<times> network" where
  "mongo_Connect ctx uri n =
     (let n1 = n\<lparr>net_calls := net_calls n @ [NetConnect ctx uri]\<rparr> in
      case connect_error n uri of
        Some e \<Rightarrow> (Inl e, n1)
      | None \<Rightarrow> (Inr \<lparr>client_uri = uri\<rparr>, n1))"

definition client_Ping :: "gocontext \<Rightarrow> client \<Rightarrow> network \<Rightarrow> error option \<times> network" where
  "client_Ping ctx cl n =
     (let n1 = n\<lparr>net_calls := net_calls n @ [NetPing ctx (client_uri cl)]\<rparr> in
      if ctx_done ctx then (Some ErrContextCanceled, n1)
      else (ping_error n (client_uri cl), n1))"

definition client_Database :: "client \<Rightarrow> string \<Rightarrow> database" where
  "client_Database cl name = \<lparr>db_client = cl, db_name = name\<rparr>"

text \<open>\<open>Connect\<close>: one call of \<open>mongo.Connect\<close>, then one \<open>Ping\<close>, then the handle.\<close>

definition Connect ::
  "gocontext \<Rightarrow> string \<Rightarrow> string \<Rightarrow> network \<Rightarrow> (database option \<times> error option) \<times> network" where
  "Connect ctx dbConnectionUrl dbName n =
     (case mongo_Connect ctx dbConnectionUrl n of
        (Inl err, n1) \<Rightarrow> ((None, Some (fmt_Errorf ''failed to mongo.Connect: '' err)), n1)
      | (Inr dbClient, n1) \<Rightarrow>
          (case client_Ping ctx dbClient n1 of
             (Some err, n2) \<Rightarrow> ((None, Some (fmt_Errorf ''failed to dbClient.Ping: '' err)), n2)
           | (None, n2) \<Rightarrow> ((Some (client_Database dbClient dbName), None), n2)))"

section \<open>Records and reflection\<close>

text \<open>
  A record of type \<open>T\<close> as \<open>reflect\<close> sees it: a struct is the list of its fields, each
  with its name, its static type and its value; any other kind of \<open>T\<close> is \<open>OtherV\<close>.
  The static type matters to \<open>reflect.Value.Set\<close> only: a \<open>time.Time\<close> can be stored in
  a field of type \<open>time.Time\<close> or of an interface type it implements, and nowhere else.
  Structs are flat (no embedding). A pointer \<open>*T\<close> is \<open>None\<close> when nil. A call that
  panics yields \<open>Panic\<close>.
\<close>

datatype gotype = TimeT | InterfaceT | OtherT

type_synonym sfield = "string \<times> gotype \<times> val"

datatype tvalue = StructV "sfield list" | OtherV val

datatype 'a exec = Panic | Returns 'a

fun FieldByName :: "tvalue option \<Rightarrow> string \<Rightarrow> sfield option exec" where
  "FieldByName (Some (StructV fs)) name = Returns (find (\<lambda>f. fst f = name) fs)"
| "FieldByName item name = Panic"

definition IsValid :: "sfield option \<Rightarrow> bool" where
  "IsValid fld = (fld \<noteq> None)"

definition exported :: "string \<Rightarrow> bool" where
  "exported name =
     (case name of [] \<Rightarrow> False | ch # rest \<Rightarrow> ch \<in> set ''ABCDEFGHIJKLMNOPQRSTUVWXYZ'')"

definition CanSet :: "sfield option \<Rightarrow> bool" where
  "CanSet fld = (case fld of None \<Rightarrow> False | Some f \<Rightarrow> exported (fst f))"

fun assignable :: "gotype \<Rightarrow> bool" where
  "assignable TimeT = True"
| "assignable InterfaceT = True"
| "assignable OtherT = False"

fun set_field :: "string \<Rightarrow> val \<Rightarrow> sfield list \<Rightarrow> sfield list" where
  "set_field name v [] = []"
| "set_field name v ((n, t, w) # fs) =
     (if n = name then (n, t, v) # fs else (n, t, w) # set_field name v fs)"

fun reflect_Set :: "tvalue option \<Rightarrow> string \<Rightarrow> val \<Rightarrow> tvalue option exec" where
  "reflect_Set (Some (StructV fs)) name v =
     (case find (\<lambda>f. fst f = name) fs of
        None \<Rightarrow> Panic
      | Some f \<Rightarrow>
          if assignable (fst (snd f)) then Returns (Some (StructV (set_field name v fs)))
          else Panic)"
| "reflect_Set item name v = Panic"

text \<open>The value a record holds in the field of a given name, if it declares one.\<close>

definition field_of :: "tvalue option \<Rightarrow> string \<Rightarrow> val option" where
  "field_of item name =
     (case item of
        Some (StructV fs) \<Rightarrow> map_option (\<lambda>f. snd (snd f)) (find (\<lambda>f. fst f = name) fs)
      | _ \<Rightarrow> None)"

text \<open>
  The block both \<open>Create\<close> and \<open>Update\<close> run for a timestamp attribute:
  \<^verbatim>\<open>f := reflect.ValueOf(item).Elem().FieldByName(name)\<close>,
  \<^verbatim>\<open>if f.IsValid() && f.CanSet() { f.Set(reflect.ValueOf(now)) }\<close>.
  The result is the record \<open>item\<close> points to afterwards.
\<close>

definition stamp :: "string \<Rightarrow> time \<Rightarrow> tvalue option \<Rightarrow> tvalue option exec" where
  "stamp name now item =
     (case FieldByName item name of
        Panic \<Rightarrow> Panic
      | Returns fld \<Rightarrow>
          if IsValid fld \<and> CanSet fld then reflect_Set item name (VTime now)
          else Returns item)"

text \<open>
  The type parameter \<open>T\<close> enters through the driver's codec for it: how a record of type
  \<open>T\<close> is encoded as a document and how a document is decoded into a record.
\<close>

record codec =
  marshalT :: "tvalue \<Rightarrow> error + document"
  decodeT :: "document \<Rightarrow> error + tvalue"

definition marshal_ptr :: "codec \<Rightarrow> tvalue option \<Rightarrow> error + document" where
  "marshal_ptr T item = (case item of None \<Rightarrow> Inl ErrNoEncoder | Some r \<Rightarrow> marshalT T r)"

definition SingleResult_Decode :: "codec \<Rightarrow> error + document \<Rightarrow> error + tvalue" where
  "SingleResult_Decode T sr = (case sr of Inl e \<Rightarrow> Inl e | Inr d \<Rightarrow> decodeT T d)"

section \<open>The generic record controller\<close>

text \<open>
  Each operation takes the caller's context, its arguments and the collection, and returns
  what the Go method returns together with the collection afterwards. \<open>Create\<close>, \<open>Update\<close>
  and \<open>UpdateAttributes\<close> also take \<open>now\<close>, the value \<open>time.Now()\<close> gives them, and
  return the caller's record (or attribute map) as it is after the call, since they write
  to it in place. A Go map is an association list in the order \<open>range\<close> visits it; a nil
  map or nil slice is \<open>None\<close>. The debug log lines are left out.
\<close>

fun range_append :: "bsonD \<Rightarrow> (string \<times> val) list \<Rightarrow> bsonD" where
  "range_append flt [] = flt"
| "range_append flt ((k, v) # rest) = range_append (append_E flt (k, v)) rest"

definition Create ::
  "codec \<Rightarrow> gocontext \<Rightarrow> time \<Rightarrow> tvalue option \<Rightarrow> collection
     \<Rightarrow> (error option \<times> tvalue option \<times> collection) exec" where
  "Create T ctx now item c =
     (case stamp ''CreatedAt'' now item of
        Panic \<Rightarrow> Panic
      | Returns item1 \<Rightarrow>
          (case stamp ''UpdatedAt'' now item1 of
             Panic \<Rightarrow> Panic
           | Returns item2 \<Rightarrow>
               (case db_InsertOne ctx (marshal_ptr T) item2 c of
                  ((res, err), c') \<Rightarrow> Returns (err, item2, c'))))"

definition Get ::
  "codec \<Rightarrow> gocontext \<Rightarrow> val \<Rightarrow> collection
     \<Rightarrow> (tvalue option \<times> error option) \<times> collection" where
  "Get T ctx ident c =
     (let flt = Some [(''_id'', ident)] in
      case db_FindOne ctx flt c of
        (sr, c') \<Rightarrow>
          (case SingleResult_Decode T sr of
             Inl err \<Rightarrow> ((None, Some err), c')
           | Inr result \<Rightarrow> ((Some result, None), c')))"

definition Find ::
  "codec \<Rightarrow> gocontext \<Rightarrow> (string \<times> val) list \<Rightarrow> collection
     \<Rightarrow> (tvalue option \<times> error option) \<times> collection" where
  "Find T ctx sels c =
     (let flt = range_append None sels in
      case db_FindOne ctx flt c of
        (sr, c') \<Rightarrow>
          (case SingleResult_Decode T sr of
             Inl err \<Rightarrow> ((None, Some err), c')
           | Inr result \<Rightarrow> ((Some result, None), c')))"

definition Exists ::
  "codec \<Rightarrow> gocontext \<Rightarrow> (string \<times> val) list \<Rightarrow> collection
     \<Rightarrow> (tvalue option \<times> bool \<times> error option) \<times> collection" where
  "Exists T ctx sels c =
     (case Find T ctx sels c of
        ((result, err), c') \<Rightarrow>
          (case err of
             Some e \<Rightarrow>
               if errors_Is e ErrNoDocuments then ((None, False, None), c')
               else ((None, False, Some e), c')
           | None \<Rightarrow> ((result, True, None), c')))"

definition Update ::
  "codec \<Rightarrow> gocontext \<Rightarrow> time \<Rightarrow> val \<Rightarrow> tvalue option \<Rightarrow> collection
     \<Rightarrow> (error option \<times> tvalue option \<times> collection) exec" where
  "Update T ctx now ident item c =
     (case stamp ''UpdatedAt'' now item of
        Panic \<Rightarrow> Panic
      | Returns item1 \<Rightarrow>
          (case marshal_ptr T item1 of
             Inl err \<Rightarrow> Returns (Some err, item1, c)
           | Inr dataByte \<Rightarrow>
               (case bson_Unmarshal dataByte of
                  Inl err \<Rightarrow> Returns (Some err, item1, c)
                | Inr update \<Rightarrow>
                    (case db_UpdateOne ctx (Some [(''_id'', ident)]) (Some [(''$set'', VDoc update)]) c of
                       ((res, err), c') \<Rightarrow> Returns (err, item1, c')))))"

definition UpdateAttributes ::
  "gocontext \<Rightarrow> time \<Rightarrow> (string \<times> val) list \<Rightarrow> (string \<times> val) list option \<Rightarrow> collection
     \<Rightarrow> (error option \<times> (string \<times> val) list option \<times> collection) exec" where
  "UpdateAttributes ctx now sels attrs c =
     (let flt = range_append None sels in
      case attrs of
        None \<Rightarrow> Panic
      | Some m \<Rightarrow>
          (let attrs1 = AList.update ''updated_at'' (VTime now) m in
           case bson_Marshal attrs1 of
             Inl err \<Rightarrow> Returns (Some err, Some attrs1, c)
           | Inr dataByte \<Rightarrow>
               (case bson_Unmarshal dataByte of
                  Inl err \<Rightarrow> Returns (Some err, Some attrs1, c)
                | Inr update \<Rightarrow>
                    (case db_UpdateMany ctx flt (Some [(''$set'', VDoc update)]) c of
                       ((res, err), c') \<Rightarrow> Returns (err, Some attrs1, c')))))"

definition Delete :: "gocontext \<Rightarrow> val \<Rightarrow> collection \<Rightarrow> error option \<times> collection" where
  "Delete ctx ident c =
     (let flt = Some [(''_id'', ident)] in
      case db_DeleteOne ctx flt c of ((res, err), c') \<Rightarrow> (err, c'))"

definition DeleteRange ::
  "gocontext \<Rightarrow> (string \<times> val) list \<Rightarrow> collection \<Rightarrow> error option \<times> collection" where
  "DeleteRange ctx sels c =
     (let flt = range_append None sels in
      case db_DeleteMany ctx flt c of ((res, err), c') \<Rightarrow> (err, c'))"

text \<open>
  The loop \<^verbatim>\<open>for cursor.Next(ctx) { ... }\<close> over the documents the cursor still holds;
  \<open>results\<close> starts as the empty, non-nil slice \<^verbatim>\<open>[]T{}\<close>.
\<close>

fun cursor_loop ::
  "codec \<Rightarrow> document list \<Rightarrow> tvalue list \<Rightarrow> tvalue list option \<times> error option" where
  "cursor_loop T [] results = (Some results, None)"
| "cursor_loop T (d # cursor) results =
     (case decodeT T d of
        Inl err \<Rightarrow> (None, Some err)
      | Inr result \<Rightarrow> cursor_loop T cursor (results @ [result]))"

definition ListAll ::
  "codec \<Rightarrow> gocontext \<Rightarrow> collection \<Rightarrow> (tvalue list option \<times> error option) \<times> collection" where
  "ListAll T ctx c =
     (let flt = Some [([], VNil)] in
      case db_Find ctx flt c of
        (Inl err, c') \<Rightarrow> ((None, Some err), c')
      | (Inr cursor, c') \<Rightarrow> (cursor_loop T cursor [], c'))"

definition List ::
  "codec \<Rightarrow> gocontext \<Rightarrow> (string \<times> val) list \<Rightarrow> collection
     \<Rightarrow> (tvalue list option \<times> error option) \<times> collection" where
  "List T ctx sels c =
     (let flt = range_append None sels in
      case db_Find ctx flt c of
        (Inl err, c') \<Rightarrow> ((None, Some err), c')
      | (Inr cursor, c') \<Rightarrow> (cursor_loop T cursor [], c'))"

fun range_index_keys :: "bsonD \<Rightarrow> (string \<times> int) list \<Rightarrow> bsonD" where
  "range_index_keys indexKeys [] = indexKeys"
| "range_index_keys indexKeys ((key, v) # rest) =
     range_index_keys (append_E indexKeys (key, VInt v)) rest"

definition CreateIndex ::
  "gocontext \<Rightarrow> (string \<times> int) list \<Rightarrow> bool \<Rightarrow> collection
     \<Rightarrow> (string \<times> error option) \<times> collection" where
  "CreateIndex ctx sels unique c =
     (let indexKeys = range_index_keys None sels;
          indexModel = \<lparr>Keys = indexKeys, Unique = unique\<rparr> in
      case db_CreateOne Background indexModel c of
        ((indexName, err), c') \<Rightarrow>
          (case err of
             Some e \<Rightarrow> (([], Some e), c')
           | None \<Rightarrow> ((indexName, None), c')))"

section \<open>Example data\<close>

text \<open>
  A codec for struct records whose BSON keys are the field names, an empty collection on
  a reachable server, and three networks: one on which every connection string works, one
  that rejects every connection string, one on which no server answers a ping.
\<close>

definition plain_codec :: codec where
  "plain_codec =
     \<lparr>marshalT = (\<lambda>r. case r of
                         StructV fs \<Rightarrow> bson_Marshal (map (\<lambda>f. (fst f, snd (snd f))) fs)
                       | OtherV v \<Rightarrow> Inl ErrNoEncoder),
      decodeT = (\<lambda>d. Inr (StructV (map (\<lambda>kv. (fst kv, InterfaceT, snd kv)) d)))\<rparr>"

definition empty_collection :: collection where
  "empty_collection = \<lparr>docs = [], indexes = [], reachable = True, next_oid = 0, calls = []\<rparr>"

definition good_network :: network where
  "good_network = \<lparr>connect_error = (\<lambda>uri. None), ping_error = (\<lambda>uri. None), net_calls = []\<rparr>"

text \<open>
  A collection of two people, the record of the first as \<open>plain_codec\<close> decodes it, a
  collection in which one document has a field whose name is the empty string, and two
  records: one with both timestamp attributes, one with neither.
\<close>

definition people :: collection where
  "people = \<lparr>docs = [[(''_id'', VInt 1), (''name'', VStr ''ann'')],
                      [(''_id'', VInt 2), (''name'', VStr ''bob'')]],
             indexes = [], reachable = True, next_oid = 0, calls = []\<rparr>"

definition ann :: tvalue where
  "ann = StructV [(''_id'', InterfaceT, VInt 1), (''name'', InterfaceT, VStr ''ann'')]"

definition labelled :: collection where
  "labelled = \<lparr>docs = [[(''_id'', VInt 1), (''name'', VStr ''ann'')],
                        [(''_id'', VInt 3), ([], VStr ''x'')]],
               indexes = [], reachable = True, next_oid = 0, calls = []\<rparr>"

definition memo :: tvalue where
  "memo = StructV [(''ID'', OtherT, VInt 7), (''Title'', OtherT, VStr ''draft''),
                   (''CreatedAt'', TimeT, VTime 3), (''UpdatedAt'', TimeT, VTime 4)]"

definition bare :: tvalue where
  "bare = StructV [(''ID'', OtherT, VInt 8)]"

definition rejecting_network :: network where
  "rejecting_network =
     \<lparr>connect_error = (\<lambda>uri. Some ErrInvalidURI), ping_error = (\<lambda>uri. None), net_calls = []\<rparr>"

definition silent_network :: network where
  "silent_network =
     \<lparr>connect_error = (\<lambda>uri. None), ping_error = (\<lambda>uri. Some ErrUnreachable), net_calls = []\<rparr>"

section \<open>Which context reaches the store\<close>

text \<open>
  Every operation other than \<open>CreateIndex\<close> hands the caller's context to the one driver
  call it makes. \<open>Update\<close> and \<open>UpdateAttributes\<close> make no driver call when the
  serialization before it fails.
\<close>

lemma Get_calls: "calls (snd (Get T ctx ident c)) = calls c @ [(OpFindOne, ctx)]"
  by (auto simp: Get_def db_FindOne_def record_call_def Let_def
           split: sum.splits option.splits prod.splits)

lemma Find_calls: "calls (snd (Find T ctx sels c)) = calls c @ [(OpFindOne, ctx)]"
  by (auto simp: Find_def db_FindOne_def record_call_def Let_def
           split: sum.splits option.splits prod.splits)

lemma Exists_calls: "calls (snd (Exists T ctx sels c)) = calls c @ [(OpFindOne, ctx)]"
  using Find_calls [of T ctx sels c]
  by (auto simp: Exists_def split: option.splits prod.splits)

lemma Delete_calls: "calls (snd (Delete ctx ident c)) = calls c @ [(OpDeleteOne, ctx)]"
  by (auto simp: Delete_def db_DeleteOne_def record_call_def Let_def
           split: sum.splits option.splits prod.splits)

lemma DeleteRange_calls: "calls (snd (DeleteRange ctx sels c)) = calls c @ [(OpDeleteMany, ctx)]"
  by (auto simp: DeleteRange_def db_DeleteMany_def record_call_def Let_def
           split: sum.splits option.splits prod.splits)

lemma ListAll_calls: "calls (snd (ListAll T ctx c)) = calls c @ [(OpFind, ctx)]"
  by (auto simp: ListAll_def db_Find_def record_call_def Let_def
           split: sum.splits option.splits prod.splits)

lemma List_calls: "calls (snd (List T ctx sels c)) = calls c @ [(OpFind, ctx)]"
  by (auto simp: List_def db_Find_def record_call_def Let_def
           split: sum.splits option.splits prod.splits)

lemma Create_calls:
  "Create T ctx now item c = Returns (err, item', c') \<Longrightarrow>
   calls c' = calls c @ [(OpInsertOne, ctx)]"
  by (auto simp: Create_def db_InsertOne_def record_call_def Let_def
           split: sum.splits option.splits prod.splits exec.splits if_splits)

lemma Update_calls:
  "Update T ctx now ident item c = Returns (err, item', c') \<Longrightarrow>
   calls c' = calls c @ (case marshal_ptr T item' of Inl e \<Rightarrow> [] | Inr d \<Rightarrow> [(OpUpdateOne, ctx)])"
  by (auto simp: Update_def db_UpdateOne_def record_call_def Let_def bson_Unmarshal_def
           split: sum.splits option.splits prod.splits exec.splits if_splits)

lemma UpdateAttributes_calls:
  "UpdateAttributes ctx now sels attrs c = Returns (err, Some attrs', c') \<Longrightarrow>
   calls c' = calls c @ (case bson_Marshal attrs' of Inl e \<Rightarrow> [] | Inr d \<Rightarrow> [(OpUpdateMany, ctx)])"
  by (auto simp: UpdateAttributes_def db_UpdateMany_def record_call_def Let_def bson_Unmarshal_def
           split: sum.splits option.splits prod.splits exec.splits if_splits)

text \<open>
  \<open>CreateIndex\<close> receives \<open>ctx\<close> and never uses it: the index-creation call is made with
  \<open>context.Background()\<close>, whatever the caller passed.
\<close>

lemma CreateIndex_calls:
  "calls (snd (CreateIndex ctx sels unique c)) = calls c @ [(OpCreateIndex, Background)]"
  by (auto simp: CreateIndex_def db_CreateOne_def record_call_def Let_def
           split: sum.splits option.splits prod.splits)

text \<open>
  C1. The claim: every controller operation passes the caller's context, unmodified, to
  exactly one store call, and in particular \<open>CreateIndex\<close> passes the caller's \<open>ctx\<close> to the
  index-creation call. The code does not do that in \<open>CreateIndex\<close>. Evaluated on an empty
  collection with a caller context that is already cancelled, \<open>CreateIndex\<close> issues its one
  driver call with the background context, so the cancellation is not seen and the index is
  created and its name returned.
\<close>

theorem CreateIndex_drops_caller_context:
  "CreateIndex (Ctx 1 True) [(''email'', 1)] True empty_collection =
     ((''email_1'', None),
      empty_collection\<lparr>indexes := [(''email_1'', [(''email'', VInt 1)], True)],
                        calls := [(OpCreateIndex, Background)]\<rparr>)"
  by (simp add: CreateIndex_def db_CreateOne_def record_call_def Let_def empty_collection_def
       marshal_arg_def append_E_def bson_Marshal_def round_trip_def digits.simps digit_def)

section \<open>Facts about the store\<close>

lemma range_append_eq: "elements (range_append flt sels) = elements flt @ sels"
  by (induction flt sels rule: range_append.induct) (auto simp: append_E_def)

lemma range_append_nonempty:
  "sels \<noteq> [] \<Longrightarrow> range_append flt sels = Some (elements flt @ sels)"
proof (induction flt sels rule: range_append.induct)
  case (1 flt)
  then show ?case by simp
next
  case (2 flt k v rest)
  then show ?case by (cases rest) (auto simp: append_E_def)
qed

lemma marshal_arg_Some [simp]: "marshal_arg (Some d) = bson_Marshal d"
  by (simp add: marshal_arg_def)

lemma marshal_arg_None [simp]: "marshal_arg None = Inl ErrMarshalNull"
  by (simp add: marshal_arg_def)

lemma marshal_arg_range_append:
  "sels \<noteq> [] \<Longrightarrow> marshal_arg (range_append None sels) = bson_Marshal sels"
  by (simp add: range_append_nonempty)

lemma find_none_iff_list_ex: "(find P xs = None) = (\<not> list_ex P xs)"
  by (induction xs) auto

lemma round_trip_record_call [simp]: "round_trip ctx (record_call op ctx' c) = round_trip ctx c"
  by (simp add: round_trip_def record_call_def)

lemma docs_record_call [simp]: "docs (record_call op ctx c) = docs c"
  by (simp add: record_call_def)

lemma reachable_record_call [simp]: "reachable (record_call op ctx c) = reachable c"
  by (simp add: record_call_def)

lemma bson_Marshal_encodable: "encodable (VDoc d) \<Longrightarrow> bson_Marshal d = Inr d"
  by (simp add: bson_Marshal_def)

lemma db_FindOne_no_match:
  "marshal_arg flt = bson_Marshal d \<Longrightarrow> encodable (VDoc d) \<Longrightarrow> \<not> ctx_done ctx \<Longrightarrow> reachable c \<Longrightarrow>
   \<not> list_ex (matches d) (docs c) \<Longrightarrow> fst (db_FindOne ctx flt c) = Inl ErrNoDocuments"
  by (simp add: db_FindOne_def Let_def bson_Marshal_def round_trip_def find_none_iff_list_ex
           split: option.splits)

lemma db_Find_ok:
  "marshal_arg flt = bson_Marshal d \<Longrightarrow> encodable (VDoc d) \<Longrightarrow> \<not> ctx_done ctx \<Longrightarrow> reachable c \<Longrightarrow>
   fst (db_Find ctx flt c) = Inr (filter (matches d) (docs c))"
  by (simp add: db_Find_def Let_def bson_Marshal_def round_trip_def)

lemma filter_none: "\<not> list_ex P xs \<Longrightarrow> filter P xs = []"
  by (induction xs) auto

lemma cursor_loop_decoded:
  "list_all2 (\<lambda>d r. decodeT T d = Inr r) ds rs \<Longrightarrow> cursor_loop T ds acc = (Some (acc @ rs), None)"
  by (induction ds rs arbitrary: acc rule: list_all2_induct) auto

lemma cursor_loop_not_nil: "cursor_loop T ds acc = (rs, None) \<Longrightarrow> rs \<noteq> None"
  by (induction ds arbitrary: acc) (auto split: sum.splits)

lemma List_eq:
  "fst (List T ctx sels c) =
     (case fst (db_Find ctx (range_append None sels) c) of
        Inl err \<Rightarrow> (None, Some err) | Inr cur \<Rightarrow> cursor_loop T cur [])"
  by (auto simp: List_def split: prod.splits sum.splits)

lemma ListAll_eq:
  "fst (ListAll T ctx c) =
     (case fst (db_Find ctx (Some [([], VNil)]) c) of
        Inl err \<Rightarrow> (None, Some err) | Inr cur \<Rightarrow> cursor_loop T cur [])"
  by (auto simp: ListAll_def split: prod.splits sum.splits)

section \<open>The empty selector\<close>

text \<open>
  \<open>Find\<close>, \<open>List\<close>, \<open>DeleteRange\<close> and \<open>UpdateAttributes\<close> declare \<^verbatim>\<open>var filter bson.D\<close> and
  append to it inside the loop over the selector map only. For an empty map the loop body
  never runs, the filter handed to the driver is the nil \<open>bson.D\<close>, and the driver refuses
  it: whatever the collection holds, the call fails with the driver's \<open>MarshalError\<close>, and
  \<open>Exists\<close>, for which that is not the no-documents condition, returns it.
\<close>

lemma Find_empty_selector: "fst (Find T ctx [] c) = (None, Some ErrMarshalNull)"
  by (simp add: Find_def db_FindOne_def Let_def SingleResult_Decode_def)

lemma Exists_empty_selector: "fst (Exists T ctx [] c) = (None, False, Some ErrMarshalNull)"
  using Find_empty_selector [of T ctx c]
  by (auto simp: Exists_def split: prod.splits option.splits)

lemma List_empty_selector: "fst (List T ctx [] c) = (None, Some ErrMarshalNull)"
  by (simp add: List_eq db_Find_def Let_def)

lemma DeleteRange_empty_selector: "fst (DeleteRange ctx [] c) = Some ErrMarshalNull"
  by (simp add: DeleteRange_def db_DeleteMany_def Let_def)

text \<open>
  C4. The claim: for the empty selector map \<open>Find\<close>, \<open>List\<close> and \<open>Exists\<close> build an
  unconstrained filter that matches every document, \<open>Find\<close> and \<open>Exists\<close> returning the
  first document of a non-empty collection. The code does not do that. For the empty map
  the filter stays the nil \<open>bson.D\<close>, and on a collection of two documents, on a server
  that answers, \<open>Find\<close> and \<open>List\<close> return the driver's \<open>MarshalError\<close> and no record, and
  \<open>Exists\<close> returns \<open>(nil, false)\<close> with that error.
\<close>

theorem empty_selector_is_refused:
  "range_append None [] = None \<and>
   fst (Find plain_codec Background [] people) = (None, Some ErrMarshalNull) \<and>
   fst (Exists plain_codec Background [] people) = (None, False, Some ErrMarshalNull) \<and>
   fst (List plain_codec Background [] people) = (None, Some ErrMarshalNull)"
  by (simp add: Find_def Exists_def List_def db_FindOne_def db_Find_def Let_def
        SingleResult_Decode_def)

section \<open>Exists\<close>

text \<open>
  What \<open>Exists\<close> makes of the result of \<open>Find\<close>: an error that is the store's
  no-documents condition becomes \<open>(nil, false, nil)\<close>, any other error is returned with
  \<open>(nil, false)\<close>, a record is returned with \<open>true\<close>. A selector that is not empty and
  matches no document of a store that answers gives \<open>(nil, false, nil)\<close>.
\<close>

lemma Exists_cases:
  "(snd (fst (Find T ctx sels c)) = Some e \<and> errors_Is e ErrNoDocuments
      \<longrightarrow> fst (Exists T ctx sels c) = (None, False, None)) \<and>
   (snd (fst (Find T ctx sels c)) = Some e \<and> \<not> errors_Is e ErrNoDocuments
      \<longrightarrow> fst (Exists T ctx sels c) = (None, False, Some e)) \<and>
   (fst (Find T ctx sels c) = (Some r, None)
      \<longrightarrow> fst (Exists T ctx sels c) = (Some r, True, None))"
  by (auto simp: Exists_def split: prod.splits option.splits)

lemma Exists_no_match:
  assumes "sels \<noteq> []" and "encodable (VDoc sels)" and "\<not> ctx_done ctx" and "reachable c"
    and "\<not> list_ex (matches sels) (docs c)"
  shows "fst (Find T ctx sels c) = (None, Some ErrNoDocuments)"
    and "fst (Exists T ctx sels c) = (None, False, None)"
proof -
  have "fst (db_FindOne ctx (range_append None sels) c) = Inl ErrNoDocuments"
    using assms by (simp add: db_FindOne_no_match [where d = sels] marshal_arg_range_append)
  then show f: "fst (Find T ctx sels c) = (None, Some ErrNoDocuments)"
    by (auto simp: Find_def SingleResult_Decode_def split: prod.splits sum.splits)
  then show "fst (Exists T ctx sels c) = (None, False, None)"
    by (auto simp: Exists_def split: prod.splits option.splits)
qed

text \<open>
  C3. The claim: for every selector map \<open>Exists\<close> returns \<open>(nil, false, nil)\<close> when \<open>Find\<close>
  fails with the no-documents condition, returns any other error of \<open>Find\<close>, returns
  \<open>(record, true)\<close> when \<open>Find\<close> succeeds, and never returns an error for a selector that
  matches no document. The code does not do the last for the empty selector map. On an
  empty collection, where no selector matches a document, \<open>Exists\<close> with the empty map
  returns \<open>(nil, false)\<close> and the driver's \<open>MarshalError\<close>: the one driver call it makes is
  refused before any round trip.
\<close>

theorem Exists_fails_on_empty_selector:
  "Exists plain_codec Background [] empty_collection =
     ((None, False, Some ErrMarshalNull),
      empty_collection\<lparr>calls := [(OpFindOne, Background)]\<rparr>)"
  by (simp add: Exists_def Find_def db_FindOne_def Let_def SingleResult_Decode_def
        record_call_def empty_collection_def)

section \<open>ListAll\<close>

text \<open>
  The filter \<open>ListAll\<close> submits is \<^verbatim>\<open>bson.D{bson.E{}}\<close>: one element, whose key is the
  empty string and whose value is nil. It asks for the field named by the empty string to
  be null or absent.
\<close>

lemma ListAll_filter_matches:
  "matches [([], VNil)] d = (map_of d [] = None \<or> map_of d [] = Some VNil)"
  by (auto simp: matches_def field_matches_def split: option.splits)

text \<open>
  C5. The claim: \<open>ListAll\<close> returns every document of the collection, the filter it
  submits excluding none. The code does not do that. On a collection of two documents, of
  which the second has a field named by the empty string with a value that is not null,
  \<open>ListAll\<close> returns the first document only, with a nil error.
\<close>

theorem ListAll_leaves_out_a_document:
  "fst (ListAll plain_codec Background labelled) = (Some [ann], None)"
  by (simp add: ListAll_def db_Find_def Let_def bson_Marshal_def round_trip_def
        record_call_def labelled_def matches_def field_matches_def plain_codec_def ann_def)

section \<open>List results\<close>

text \<open>
  Whenever \<open>List\<close> or \<open>ListAll\<close> returns a nil error, the sequence it returns is not nil.
  When no document matches and the store answers, \<open>ListAll\<close>, and \<open>List\<close> with a selector
  that is not empty, return the empty, non-nil sequence with a nil error.
\<close>

lemma List_result_not_nil: "fst (List T ctx sels c) = (rs, None) \<Longrightarrow> rs \<noteq> None"
  by (auto simp: List_eq split: sum.splits dest: cursor_loop_not_nil)

lemma ListAll_result_not_nil: "fst (ListAll T ctx c) = (rs, None) \<Longrightarrow> rs \<noteq> None"
  by (auto simp: ListAll_eq split: sum.splits dest: cursor_loop_not_nil)

lemma List_no_match:
  "sels \<noteq> [] \<Longrightarrow> encodable (VDoc sels) \<Longrightarrow> \<not> ctx_done ctx \<Longrightarrow> reachable c \<Longrightarrow>
   \<not> list_ex (matches sels) (docs c) \<Longrightarrow> fst (List T ctx sels c) = (Some [], None)"
  by (simp add: List_eq db_Find_ok [where d = sels] marshal_arg_range_append filter_none)

lemma ListAll_no_match:
  "\<not> ctx_done ctx \<Longrightarrow> reachable c \<Longrightarrow> \<not> list_ex (matches [([], VNil)]) (docs c) \<Longrightarrow>
   fst (ListAll T ctx c) = (Some [], None)"
  by (simp add: ListAll_eq db_Find_ok [where d = "[([], VNil)]"] filter_none)

text \<open>
  C7. The claim: for every selector map, when no document matches (the collection may be
  empty) \<open>List\<close> returns the empty sequence with a nil error, never a nil sequence and
  never a failure. The code does not do that for the empty selector map. On an empty
  collection, on a server that answers, \<open>List\<close> with the empty map returns the nil sequence
  and the driver's \<open>MarshalError\<close>: the \<open>Find\<close> call is refused before any round trip and
  the line that makes the empty sequence is not reached.
\<close>

theorem List_fails_on_empty_selector:
  "List plain_codec Background [] empty_collection =
     ((None, Some ErrMarshalNull), empty_collection\<lparr>calls := [(OpFind, Background)]\<rparr>)"
  by (simp add: List_def db_Find_def Let_def record_call_def empty_collection_def)

section \<open>Facts about stamping\<close>

lemma find_name_fst: "find (\<lambda>f. fst f = name) fs = Some f \<Longrightarrow> fst f = name"
  by (induction fs) (auto split: if_splits)

lemma find_set_field_same:
  "find (\<lambda>f. fst f = name) fs = Some f \<Longrightarrow>
   find (\<lambda>f. fst f = name) (set_field name v fs) = Some (name, fst (snd f), v)"
  by (induction name v fs rule: set_field.induct) (auto split: if_splits)

lemma find_set_field_other:
  "n \<noteq> name \<Longrightarrow> map_option (\<lambda>f. snd (snd f)) (find (\<lambda>f. fst f = n) (set_field name v fs))
     = map_option (\<lambda>f. snd (snd f)) (find (\<lambda>f. fst f = n) fs)"
  by (induction name v fs rule: set_field.induct) auto

lemma exported_CreatedAt [simp]: "exported ''CreatedAt''"
  by (simp add: exported_def)

lemma exported_UpdatedAt [simp]: "exported ''UpdatedAt''"
  by (simp add: exported_def)

lemma stamp_struct:
  "exported name \<Longrightarrow>
   stamp name now (Some (StructV fs)) =
     (case find (\<lambda>f. fst f = name) fs of
        None \<Rightarrow> Returns (Some (StructV fs))
      | Some f \<Rightarrow> if assignable (fst (snd f))
                  then Returns (Some (StructV (set_field name (VTime now) fs))) else Panic)"
  by (auto simp: stamp_def IsValid_def CanSet_def split: option.splits dest: find_name_fst)

lemma stamp_returns_struct:
  assumes "stamp name now item = Returns item'"
  shows "\<exists>fs. item = Some (StructV fs)"
proof (cases item)
  case None
  with assms show ?thesis by (simp add: stamp_def)
next
  case (Some r)
  with assms show ?thesis by (cases r) (auto simp: stamp_def)
qed

lemma stamp_same:
  assumes "stamp name now item = Returns item'" and "exported name" and "field_of item name \<noteq> None"
  shows "field_of item' name = Some (VTime now)"
proof -
  from assms(1) obtain fs where fs: "item = Some (StructV fs)"
    using stamp_returns_struct by blast
  with assms(3) obtain f where f: "find (\<lambda>f. fst f = name) fs = Some f"
    by (auto simp: field_of_def)
  with assms(1,2) fs have "item' = Some (StructV (set_field name (VTime now) fs))"
    by (auto simp: stamp_struct split: if_splits)
  then show ?thesis
    using find_set_field_same [OF f] by (simp add: field_of_def)
qed

lemma stamp_other:
  assumes "stamp name now item = Returns item'" and "exported name" and "n \<noteq> name"
  shows "field_of item' n = field_of item n"
proof -
  from assms(1) obtain fs where fs: "item = Some (StructV fs)"
    using stamp_returns_struct by blast
  with assms(1,2) have "item' = item \<or> item' = Some (StructV (set_field name (VTime now) fs))"
    by (auto simp: stamp_struct split: option.splits if_splits)
  then show ?thesis
    using fs find_set_field_other [OF assms(3)] by (auto simp: field_of_def)
qed

lemma stamp_absent:
  assumes "stamp name now item = Returns item'" and "exported name" and "field_of item name = None"
  shows "item' = item"
proof -
  from assms(1) obtain fs where fs: "item = Some (StructV fs)"
    using stamp_returns_struct by blast
  with assms(3) have "find (\<lambda>f. fst f = name) fs = None"
    by (auto simp: field_of_def)
  with assms(1,2) fs show ?thesis
    by (simp add: stamp_struct)
qed

lemma stamp_total:
  assumes "exported name" and "list_all (\<lambda>f. fst f \<noteq> name \<or> assignable (fst (snd f))) fs"
  shows "\<exists>fs'. stamp name now (Some (StructV fs)) = Returns (Some (StructV fs')) \<and>
               map (\<lambda>f. (fst f, fst (snd f))) fs' = map (\<lambda>f. (fst f, fst (snd f))) fs"
proof (cases "find (\<lambda>f. fst f = name) fs")
  case None
  then show ?thesis using assms(1) by (simp add: stamp_struct)
next
  case (Some f)
  then have "f \<in> set fs" and "fst f = name"
    by (auto simp: find_Some_iff)
  with assms(2) have "assignable (fst (snd f))"
    by (auto simp: list_all_iff)
  moreover have "map (\<lambda>f. (fst f, fst (snd f))) (set_field name v fs) = map (\<lambda>f. (fst f, fst (snd f))) fs" for v
    by (induction name v fs rule: set_field.induct) auto
  ultimately show ?thesis using Some assms(1) by (simp add: stamp_struct)
qed

text \<open>
  Where the reflection panics: on a nil pointer, on a record type that is not a struct, and
  on a timestamp attribute of a type that cannot hold a \<open>time.Time\<close>.
\<close>

lemma stamp_panics_on_nil: "stamp name now None = Panic"
  by (simp add: stamp_def)

lemma stamp_panics_on_non_struct: "stamp name now (Some (OtherV v)) = Panic"
  by (simp add: stamp_def)

lemma stamp_panics_on_other_type:
  "exported name \<Longrightarrow> find (\<lambda>f. fst f = name) fs = Some (name, OtherT, v) \<Longrightarrow>
   stamp name now (Some (StructV fs)) = Panic"
  by (simp add: stamp_struct)

lemma Create_panics_on_nil: "Create T ctx now None c = Panic"
  by (simp add: Create_def stamp_panics_on_nil)

lemma Update_panics_on_nil: "Update T ctx now ident None c = Panic"
  by (simp add: Update_def stamp_panics_on_nil)

lemma Create_returnsD:
  assumes "Create T ctx now item c = Returns (err, item', c')"
  shows "\<exists>item1 res. stamp ''CreatedAt'' now item = Returns item1 \<and>
           stamp ''UpdatedAt'' now item1 = Returns item' \<and>
           db_InsertOne ctx (marshal_ptr T) item' c = ((res, err), c')"
  using assms by (auto simp: Create_def split: exec.splits prod.splits)

lemma Update_returnsD:
  assumes "Update T ctx now ident item c = Returns (err, item', c')"
  shows "stamp ''UpdatedAt'' now item = Returns item' \<and>
         (case marshal_ptr T item' of
            Inl e \<Rightarrow> err = Some e \<and> c' = c
          | Inr d \<Rightarrow> \<exists>res. db_UpdateOne ctx (Some [(''_id'', ident)]) (Some [(''$set'', VDoc d)]) c = ((res, err), c'))"
  using assms
  by (auto simp: Update_def bson_Unmarshal_def split: exec.splits prod.splits sum.splits)

lemma stamps_total:
  assumes "list_all (\<lambda>f. (fst f \<noteq> ''CreatedAt'' \<and> fst f \<noteq> ''UpdatedAt'') \<or> assignable (fst (snd f))) fs"
  shows "\<exists>item1 item2. stamp ''CreatedAt'' now (Some (StructV fs)) = Returns item1 \<and>
           stamp ''UpdatedAt'' now item1 = Returns item2"
    and "\<exists>item2. stamp ''UpdatedAt'' now (Some (StructV fs)) = Returns item2"
proof -
  let ?sig = "\<lambda>f::sfield. (fst f, fst (snd f))"
  let ?Q = "\<lambda>name (p::string \<times> gotype). fst p \<noteq> name \<or> assignable (snd p)"
  from assms have c: "list_all (\<lambda>f. fst f \<noteq> ''CreatedAt'' \<or> assignable (fst (snd f))) fs"
    and u: "list_all (\<lambda>f. fst f \<noteq> ''UpdatedAt'' \<or> assignable (fst (snd f))) fs"
    by (auto simp: list_all_iff)
  from stamp_total [OF exported_CreatedAt c, of now]
  obtain fs' where 1: "stamp ''CreatedAt'' now (Some (StructV fs)) = Returns (Some (StructV fs'))"
    and same: "map ?sig fs' = map ?sig fs"
    by blast
  from u have "list_all (?Q ''UpdatedAt'') (map ?sig fs)"
    by (simp add: list_all_iff)
  then have "list_all (?Q ''UpdatedAt'') (map ?sig fs')"
    by (simp only: same)
  then have "list_all (\<lambda>f. fst f \<noteq> ''UpdatedAt'' \<or> assignable (fst (snd f))) fs'"
    by (simp add: list_all_iff)
  from stamp_total [OF exported_UpdatedAt this, of now] 1
  show "\<exists>item1 item2. stamp ''CreatedAt'' now (Some (StructV fs)) = Returns item1 \<and>
           stamp ''UpdatedAt'' now item1 = Returns item2"
    by blast
  from stamp_total [OF exported_UpdatedAt u, of now]
  show "\<exists>item2. stamp ''UpdatedAt'' now (Some (StructV fs)) = Returns item2"
    by blast
qed

section \<open>Timestamps\<close>

text \<open>
  C6. When \<open>Create\<close> returns, each of \<open>CreatedAt\<close> and \<open>UpdatedAt\<close> that the record declares
  holds the time taken at the call, whatever the caller had put there; every other field
  is as before; a record declaring neither is left as it was. When \<open>Update\<close> returns,
  \<open>UpdatedAt\<close> (if declared) holds the time taken at the call and every other field,
  \<open>CreatedAt\<close> included, is as before. Both return, rather than panic, for a struct
  record whose timestamp attributes can hold a \<open>time.Time\<close>.
\<close>

theorem timestamps_are_set_by_the_controller:
  "(Create T ctx now item c = Returns (err, item', c') \<longrightarrow>
      (field_of item ''CreatedAt'' \<noteq> None \<longrightarrow> field_of item' ''CreatedAt'' = Some (VTime now)) \<and>
      (field_of item ''UpdatedAt'' \<noteq> None \<longrightarrow> field_of item' ''UpdatedAt'' = Some (VTime now)) \<and>
      (\<forall>n. n \<noteq> ''CreatedAt'' \<and> n \<noteq> ''UpdatedAt'' \<longrightarrow> field_of item' n = field_of item n) \<and>
      (field_of item ''CreatedAt'' = None \<and> field_of item ''UpdatedAt'' = None \<longrightarrow> item' = item)) \<and>
   (Update T ctx now ident item c = Returns (err, item', c') \<longrightarrow>
      (field_of item ''UpdatedAt'' \<noteq> None \<longrightarrow> field_of item' ''UpdatedAt'' = Some (VTime now)) \<and>
      (\<forall>n. n \<noteq> ''UpdatedAt'' \<longrightarrow> field_of item' n = field_of item n) \<and>
      (field_of item ''UpdatedAt'' = None \<longrightarrow> item' = item)) \<and>
   (item = Some (StructV fs) \<and>
    list_all (\<lambda>f. (fst f \<noteq> ''CreatedAt'' \<and> fst f \<noteq> ''UpdatedAt'') \<or> assignable (fst (snd f))) fs \<longrightarrow>
      Create T ctx now item c \<noteq> Panic \<and> Update T ctx now ident item c \<noteq> Panic)"
proof (intro conjI impI allI)
  assume r: "Create T ctx now item c = Returns (err, item', c')"
  then obtain item1 where s1: "stamp ''CreatedAt'' now item = Returns item1"
    and s2: "stamp ''UpdatedAt'' now item1 = Returns item'"
    using Create_returnsD by blast
  have keepC: "field_of item' ''CreatedAt'' = field_of item1 ''CreatedAt''"
    using stamp_other [OF s2] by simp
  have keepU: "field_of item1 ''UpdatedAt'' = field_of item ''UpdatedAt''"
    using stamp_other [OF s1] by simp
  {
    assume "field_of item ''CreatedAt'' \<noteq> None"
    then show "field_of item' ''CreatedAt'' = Some (VTime now)"
      using stamp_same [OF s1] keepC by simp
  }
  {
    assume "field_of item ''UpdatedAt'' \<noteq> None"
    then show "field_of item' ''UpdatedAt'' = Some (VTime now)"
      using stamp_same [OF s2] keepU by simp
  }
  {
    fix n :: string
    assume "n \<noteq> ''CreatedAt'' \<and> n \<noteq> ''UpdatedAt''"
    then show "field_of item' n = field_of item n"
      using stamp_other [OF s1, of n] stamp_other [OF s2, of n] by simp
  }
  {
    assume "field_of item ''CreatedAt'' = None \<and> field_of item ''UpdatedAt'' = None"
    then show "item' = item"
      using stamp_absent [OF s1] stamp_absent [OF s2] keepU by simp
  }
next
  assume r: "Update T ctx now ident item c = Returns (err, item', c')"
  then have s: "stamp ''UpdatedAt'' now item = Returns item'"
    using Update_returnsD by blast
  {
    assume "field_of item ''UpdatedAt'' \<noteq> None"
    then show "field_of item' ''UpdatedAt'' = Some (VTime now)"
      using stamp_same [OF s] by simp
  }
  {
    fix n :: string
    assume "n \<noteq> ''UpdatedAt''"
    then show "field_of item' n = field_of item n"
      using stamp_other [OF s, of n] by simp
  }
  {
    assume "field_of item ''UpdatedAt'' = None"
    then show "item' = item"
      using stamp_absent [OF s] by simp
  }
next
  assume h: "item = Some (StructV fs) \<and>
    list_all (\<lambda>f. (fst f \<noteq> ''CreatedAt'' \<and> fst f \<noteq> ''UpdatedAt'') \<or> assignable (fst (snd f))) fs"
  then show "Create T ctx now item c \<noteq> Panic"
    using stamps_total(1) [of fs now]
    by (auto simp: Create_def split: exec.splits prod.splits)
  from h show "Update T ctx now ident item c \<noteq> Panic"
    using stamps_total(2) [of fs now]
    by (auto simp: Update_def split: exec.splits prod.splits sum.splits)
qed

text \<open>The definitions unfolded to run the operations on the example data.\<close>

lemmas run_defs =
  marshal_arg_def append_E_def Create_def Update_def UpdateAttributes_def stamp_def IsValid_def CanSet_def exported_def
  db_InsertOne_def db_UpdateOne_def db_UpdateMany_def record_call_def round_trip_def
  bson_Marshal_def bson_Unmarshal_def marshal_ptr_def matches_def field_matches_def
  ensure_id_def Let_def plain_codec_def empty_collection_def people_def memo_def bare_def

theorem timestamps_are_set_by_the_controller_witness:
  "field_of (Some (StructV [(''ID'', OtherT, VInt 7), (''Title'', OtherT, VStr ''draft''),
       (''CreatedAt'', TimeT, VTime 10), (''UpdatedAt'', TimeT, VTime 10)])) ''CreatedAt''
     = Some (VTime 10) \<and>
   field_of (Some (StructV [(''ID'', OtherT, VInt 7), (''Title'', OtherT, VStr ''draft''),
       (''CreatedAt'', TimeT, VTime 10), (''UpdatedAt'', TimeT, VTime 10)])) ''UpdatedAt''
     = Some (VTime 10) \<and>
   field_of (Some (StructV [(''ID'', OtherT, VInt 7), (''Title'', OtherT, VStr ''draft''),
       (''CreatedAt'', TimeT, VTime 3), (''UpdatedAt'', TimeT, VTime 10)])) ''UpdatedAt''
     = Some (VTime 10) \<and>
   field_of (Some (StructV [(''ID'', OtherT, VInt 7), (''Title'', OtherT, VStr ''draft''),
       (''CreatedAt'', TimeT, VTime 3), (''UpdatedAt'', TimeT, VTime 10)])) ''CreatedAt''
     = field_of (Some memo) ''CreatedAt'' \<and>
   Create plain_codec Background 10 (Some memo) empty_collection \<noteq> Panic \<and>
   Update plain_codec Background 10 (VInt 7) (Some memo) people \<noteq> Panic"
proof -
  let ?X = "StructV [(''ID'', OtherT, VInt 7), (''Title'', OtherT, VStr ''draft''),
       (''CreatedAt'', TimeT, VTime 10), (''UpdatedAt'', TimeT, VTime 10)]"
  let ?Y = "StructV [(''ID'', OtherT, VInt 7), (''Title'', OtherT, VStr ''draft''),
       (''CreatedAt'', TimeT, VTime 3), (''UpdatedAt'', TimeT, VTime 10)]"
  let ?fs = "[(''ID'', OtherT, VInt 7), (''Title'', OtherT, VStr ''draft''),
       (''CreatedAt'', TimeT, VTime 3), (''UpdatedAt'', TimeT, VTime 4)]"
  let ?c1 = "\<lparr>docs = [[(''_id'', VOid 0), (''ID'', VInt 7), (''Title'', VStr ''draft''),
                (''CreatedAt'', VTime 10), (''UpdatedAt'', VTime 10)]],
              indexes = [], reachable = True, next_oid = 1, calls = [(OpInsertOne, Background)]\<rparr>"
  let ?c2 = "people\<lparr>calls := [(OpUpdateOne, Background)]\<rparr>"
  have cr: "Create plain_codec Background 10 (Some memo) empty_collection = Returns (None, Some ?X, ?c1)"
    by (simp add: run_defs)
  have up: "Update plain_codec Background 10 (VInt 7) (Some memo) people = Returns (None, Some ?Y, ?c2)"
    by (simp add: run_defs)
  have hasC: "field_of (Some memo) ''CreatedAt'' \<noteq> None"
    by (simp add: field_of_def memo_def)
  have hasU: "field_of (Some memo) ''UpdatedAt'' \<noteq> None"
    by (simp add: field_of_def memo_def)
  have ok: "Some memo = Some (StructV ?fs) \<and>
    list_all (\<lambda>f. (fst f \<noteq> ''CreatedAt'' \<and> fst f \<noteq> ''UpdatedAt'') \<or> assignable (fst (snd f))) ?fs"
    by (simp add: memo_def)
  have ne: "''CreatedAt'' \<noteq> ''UpdatedAt''"
    by simp
  note t1 = timestamps_are_set_by_the_controller
    [where T = plain_codec and ctx = Background and now = 10 and item = "Some memo"
       and c = empty_collection and err = None and item' = "Some ?X" and c' = ?c1
       and ident = "VInt 7" and fs = ?fs]
  note t2 = timestamps_are_set_by_the_controller
    [where T = plain_codec and ctx = Background and now = 10 and item = "Some memo"
       and c = people and err = None and item' = "Some ?Y" and c' = ?c2
       and ident = "VInt 7" and fs = ?fs]
  note a = t1 [THEN conjunct1, THEN mp, OF cr]
  note b = t2 [THEN conjunct2, THEN conjunct1, THEN mp, OF up]
  note w1 = a [THEN conjunct1, THEN mp, OF hasC]
  note w2 = a [THEN conjunct2, THEN conjunct1, THEN mp, OF hasU]
  note w3 = b [THEN conjunct1, THEN mp, OF hasU]
  note w4 = b [THEN conjunct2, THEN conjunct1, THEN spec, THEN mp, OF ne]
  note w5 = t1 [THEN conjunct2, THEN conjunct2, THEN mp, OF ok, THEN conjunct1]
  note w6 = t2 [THEN conjunct2, THEN conjunct2, THEN mp, OF ok, THEN conjunct2]
  show ?thesis
    by (intro conjI) (rule w1 w2 w3 w4 w5 w6)+
qed

text \<open>
  C10. \<open>Create\<close> and \<open>Update\<close> write the timestamps into the caller's record before they
  call the store: the record the store call is made with is the record the caller holds
  afterwards. So for a record declaring both attributes the caller sees, after \<open>Create\<close>
  returns with any result, failure included, \<open>CreatedAt\<close> holding the time taken at the
  call and \<open>UpdatedAt\<close> holding the identical value; after \<open>Update\<close> returns with any
  result, \<open>UpdatedAt\<close> holds the time taken at the call.
\<close>

theorem stamps_are_written_before_the_store_call:
  "(Create T ctx now item c = Returns (err, item', c') \<longrightarrow>
      (\<exists>res. db_InsertOne ctx (marshal_ptr T) item' c = ((res, err), c')) \<and>
      (field_of item ''CreatedAt'' \<noteq> None \<and> field_of item ''UpdatedAt'' \<noteq> None \<longrightarrow>
         field_of item' ''CreatedAt'' = Some (VTime now) \<and>
         field_of item' ''UpdatedAt'' = field_of item' ''CreatedAt'')) \<and>
   (Update T ctx now ident item c = Returns (err, item', c') \<longrightarrow>
      (field_of item ''UpdatedAt'' \<noteq> None \<longrightarrow> field_of item' ''UpdatedAt'' = Some (VTime now)) \<and>
      (\<forall>d. marshal_ptr T item' = Inr d \<longrightarrow>
         (\<exists>res. db_UpdateOne ctx (Some [(''_id'', ident)]) (Some [(''$set'', VDoc d)]) c = ((res, err), c'))))"
proof (intro conjI impI allI)
  assume r: "Create T ctx now item c = Returns (err, item', c')"
  then obtain item1 res where s1: "stamp ''CreatedAt'' now item = Returns item1"
    and s2: "stamp ''UpdatedAt'' now item1 = Returns item'"
    and ins: "db_InsertOne ctx (marshal_ptr T) item' c = ((res, err), c')"
    using Create_returnsD by blast
  from ins show "\<exists>res. db_InsertOne ctx (marshal_ptr T) item' c = ((res, err), c')"
    by blast
  assume h: "field_of item ''CreatedAt'' \<noteq> None \<and> field_of item ''UpdatedAt'' \<noteq> None"
  have "field_of item1 ''CreatedAt'' = Some (VTime now)"
    using stamp_same [OF s1] h by simp
  moreover have "field_of item' ''CreatedAt'' = field_of item1 ''CreatedAt''"
    using stamp_other [OF s2] by simp
  ultimately show c: "field_of item' ''CreatedAt'' = Some (VTime now)"
    by simp
  have "field_of item1 ''UpdatedAt'' = field_of item ''UpdatedAt''"
    using stamp_other [OF s1] by simp
  with h have "field_of item' ''UpdatedAt'' = Some (VTime now)"
    using stamp_same [OF s2] by simp
  with c show "field_of item' ''UpdatedAt'' = field_of item' ''CreatedAt''"
    by simp
next
  assume r: "Update T ctx now ident item c = Returns (err, item', c')"
  note d = Update_returnsD [OF r]
  {
    assume "field_of item ''UpdatedAt'' \<noteq> None"
    then show "field_of item' ''UpdatedAt'' = Some (VTime now)"
      using stamp_same [OF d [THEN conjunct1]] by simp
  }
  {
    fix dd
    assume "marshal_ptr T item' = Inr dd"
    then show "\<exists>res. db_UpdateOne ctx (Some [(''_id'', ident)]) (Some [(''$set'', VDoc dd)]) c = ((res, err), c')"
      using d [THEN conjunct2] by simp
  }
qed

theorem stamps_are_written_before_the_store_call_witness:
  "Create plain_codec (Ctx 1 True) 10 (Some memo) empty_collection =
     Returns (Some ErrContextCanceled,
       Some (StructV [(''ID'', OtherT, VInt 7), (''Title'', OtherT, VStr ''draft''),
                      (''CreatedAt'', TimeT, VTime 10), (''UpdatedAt'', TimeT, VTime 10)]),
       empty_collection\<lparr>next_oid := 1, calls := [(OpInsertOne, Ctx 1 True)]\<rparr>) \<and>
   field_of (Some (StructV [(''ID'', OtherT, VInt 7), (''Title'', OtherT, VStr ''draft''),
       (''CreatedAt'', TimeT, VTime 10), (''UpdatedAt'', TimeT, VTime 10)])) ''CreatedAt''
     = Some (VTime 10) \<and>
   field_of (Some (StructV [(''ID'', OtherT, VInt 7), (''Title'', OtherT, VStr ''draft''),
       (''CreatedAt'', TimeT, VTime 10), (''UpdatedAt'', TimeT, VTime 10)])) ''UpdatedAt''
     = field_of (Some (StructV [(''ID'', OtherT, VInt 7), (''Title'', OtherT, VStr ''draft''),
       (''CreatedAt'', TimeT, VTime 10), (''UpdatedAt'', TimeT, VTime 10)])) ''CreatedAt'' \<and>
   Update plain_codec (Ctx 1 True) 10 (VInt 1) (Some memo) people =
     Returns (Some ErrContextCanceled,
       Some (StructV [(''ID'', OtherT, VInt 7), (''Title'', OtherT, VStr ''draft''),
                      (''CreatedAt'', TimeT, VTime 3), (''UpdatedAt'', TimeT, VTime 10)]),
       people\<lparr>calls := [(OpUpdateOne, Ctx 1 True)]\<rparr>) \<and>
   field_of (Some (StructV [(''ID'', OtherT, VInt 7), (''Title'', OtherT, VStr ''draft''),
       (''CreatedAt'', TimeT, VTime 3), (''UpdatedAt'', TimeT, VTime 10)])) ''UpdatedAt''
     = Some (VTime 10)"
proof -
  let ?X = "StructV [(''ID'', OtherT, VInt 7), (''Title'', OtherT, VStr ''draft''),
       (''CreatedAt'', TimeT, VTime 10), (''UpdatedAt'', TimeT, VTime 10)]"
  let ?Y = "StructV [(''ID'', OtherT, VInt 7), (''Title'', OtherT, VStr ''draft''),
       (''CreatedAt'', TimeT, VTime 3), (''UpdatedAt'', TimeT, VTime 10)]"
  let ?c1 = "empty_collection\<lparr>next_oid := 1, calls := [(OpInsertOne, Ctx 1 True)]\<rparr>"
  let ?c2 = "people\<lparr>calls := [(OpUpdateOne, Ctx 1 True)]\<rparr>"
  have cr: "Create plain_codec (Ctx 1 True) 10 (Some memo) empty_collection
              = Returns (Some ErrContextCanceled, Some ?X, ?c1)"
    by (simp add: run_defs)
  have up: "Update plain_codec (Ctx 1 True) 10 (VInt 1) (Some memo) people
              = Returns (Some ErrContextCanceled, Some ?Y, ?c2)"
    by (simp add: run_defs)
  have has: "field_of (Some memo) ''CreatedAt'' \<noteq> None \<and> field_of (Some memo) ''UpdatedAt'' \<noteq> None"
    by (simp add: field_of_def memo_def)
  note t1 = stamps_are_written_before_the_store_call
    [where T = plain_codec and ctx = "Ctx 1 True" and now = 10 and item = "Some memo"
       and c = empty_collection and err = "Some ErrContextCanceled" and item' = "Some ?X"
       and c' = ?c1, THEN conjunct1, THEN mp, OF cr, THEN conjunct2, THEN mp, OF has]
  note t2 = stamps_are_written_before_the_store_call
    [where T = plain_codec and ctx = "Ctx 1 True" and now = 10 and item = "Some memo"
       and c = people and err = "Some ErrContextCanceled" and item' = "Some ?Y"
       and c' = ?c2 and ident = "VInt 1", THEN conjunct2, THEN mp, OF up, THEN conjunct1, THEN mp,
       OF has [THEN conjunct2]]
  show ?thesis
    by (intro conjI) (rule cr up t1 [THEN conjunct1] t1 [THEN conjunct2] t2)+
qed

section \<open>Update of an identifier that matches nothing\<close>

lemma update_first_no_match: "\<not> list_ex P ds \<Longrightarrow> update_first P f ds = ds"
  by (induction ds) auto

lemma db_UpdateOne_no_match_docs:
  "\<not> list_ex (matches flt) (docs c) \<Longrightarrow> docs (snd (db_UpdateOne ctx (Some flt) upd c)) = docs c"
  by (auto simp: db_UpdateOne_def Let_def bson_Marshal_def update_first_no_match
           split: option.splits sum.splits if_splits)

lemma db_UpdateOne_no_match_ok:
  assumes "\<not> list_ex (matches flt) (docs c)" and "encodable (VDoc flt)" and "encodable (VDoc d)"
    and "\<not> ctx_done ctx" and "reachable c"
  shows "db_UpdateOne ctx (Some flt) (Some [(''$set'', VDoc d)]) c
           = ((0, None), record_call OpUpdateOne ctx c)"
proof -
  have "bson_Marshal [(''$set'', VDoc d)] = Inr [(''$set'', VDoc d)]"
    using assms(3) by (simp add: bson_Marshal_def)
  moreover have "bson_Marshal flt = Inr flt"
    using assms(2) by (simp add: bson_Marshal_def)
  moreover have "round_trip ctx (record_call OpUpdateOne ctx c) = None"
    using assms(4,5) by (simp add: round_trip_def)
  moreover have "update_first (matches flt) (apply_set d) (docs c) = docs c"
    using assms(1) by (rule update_first_no_match)
  ultimately show ?thesis
    using assms(1) by (simp add: db_UpdateOne_def Let_def record_call_def)
qed

text \<open>
  C2. Let no document of the collection match the identifier. Then whatever \<open>Update\<close>
  returns, the documents of the collection are as before. And \<open>Update\<close> returns no error:
  when the record is stamped and serialized without failure and the store answers, the
  result is a nil error, the only effect on the store being the one \<open>UpdateOne\<close> call it
  received. The number of matched documents that the driver reports is not looked at.
\<close>

theorem Update_of_missing_identifier_is_silent:
  "\<not> list_ex (matches [(''_id'', ident)]) (docs c) \<longrightarrow>
     (Update T ctx now ident item c = Returns (err, item', c') \<longrightarrow> docs c' = docs c) \<and>
     (stamp ''UpdatedAt'' now item = Returns stamped \<and> marshal_ptr T stamped = Inr d \<and>
      encodable (VDoc d) \<and> encodable ident \<and> \<not> ctx_done ctx \<and> reachable c \<longrightarrow>
        Update T ctx now ident item c
          = Returns (None, stamped, c\<lparr>calls := calls c @ [(OpUpdateOne, ctx)]\<rparr>))"
proof (intro impI conjI)
  assume nm: "\<not> list_ex (matches [(''_id'', ident)]) (docs c)"
  {
    assume r: "Update T ctx now ident item c = Returns (err, item', c')"
    note d = Update_returnsD [OF r, THEN conjunct2]
    show "docs c' = docs c"
    proof (cases "marshal_ptr T item'")
      case (Inl e)
      with d show ?thesis by simp
    next
      case (Inr dd)
      with d obtain res where
        "db_UpdateOne ctx (Some [(''_id'', ident)]) (Some [(''$set'', VDoc dd)]) c = ((res, err), c')"
        by auto
      then have "c' = snd (db_UpdateOne ctx (Some [(''_id'', ident)]) (Some [(''$set'', VDoc dd)]) c)"
        by simp
      then show ?thesis
        using db_UpdateOne_no_match_docs [OF nm] by simp
    qed
  }
  {
    assume h: "stamp ''UpdatedAt'' now item = Returns stamped \<and> marshal_ptr T stamped = Inr d \<and>
      encodable (VDoc d) \<and> encodable ident \<and> \<not> ctx_done ctx \<and> reachable c"
    then have "db_UpdateOne ctx (Some [(''_id'', ident)]) (Some [(''$set'', VDoc d)]) c
                 = ((0, None), record_call OpUpdateOne ctx c)"
      using db_UpdateOne_no_match_ok [OF nm, of d ctx] by simp
    with h show "Update T ctx now ident item c
          = Returns (None, stamped, c\<lparr>calls := calls c @ [(OpUpdateOne, ctx)]\<rparr>)"
      by (simp add: Update_def bson_Unmarshal_def record_call_def)
  }
qed

theorem Update_of_missing_identifier_is_silent_witness:
  "Update plain_codec Background 10 (VInt 99) (Some memo) people =
     Returns (None,
       Some (StructV [(''ID'', OtherT, VInt 7), (''Title'', OtherT, VStr ''draft''),
                      (''CreatedAt'', TimeT, VTime 3), (''UpdatedAt'', TimeT, VTime 10)]),
       people\<lparr>calls := calls people @ [(OpUpdateOne, Background)]\<rparr>) \<and>
   docs (people\<lparr>calls := calls people @ [(OpUpdateOne, Background)]\<rparr>) = docs people"
proof -
  let ?Y = "StructV [(''ID'', OtherT, VInt 7), (''Title'', OtherT, VStr ''draft''),
       (''CreatedAt'', TimeT, VTime 3), (''UpdatedAt'', TimeT, VTime 10)]"
  let ?d = "[(''ID'', VInt 7), (''Title'', VStr ''draft''), (''CreatedAt'', VTime 3),
             (''UpdatedAt'', VTime 10)]"
  let ?c' = "people\<lparr>calls := calls people @ [(OpUpdateOne, Background)]\<rparr>"
  have nm: "\<not> list_ex (matches [(''_id'', VInt 99)]) (docs people)"
    by (simp add: people_def matches_def field_matches_def)
  have h: "stamp ''UpdatedAt'' 10 (Some memo) = Returns (Some ?Y) \<and>
           marshal_ptr plain_codec (Some ?Y) = Inr ?d \<and>
           encodable (VDoc ?d) \<and> encodable (VInt 99) \<and> \<not> ctx_done Background \<and> reachable people"
    by (simp add: run_defs)
  note t = Update_of_missing_identifier_is_silent
    [where T = plain_codec and ctx = Background and now = 10 and ident = "VInt 99"
       and item = "Some memo" and c = people and stamped = "Some ?Y" and d = ?d
       and err = None and item' = "Some ?Y" and c' = ?c', THEN mp, OF nm]
  note a = t [THEN conjunct2, THEN mp, OF h]
  note b = t [THEN conjunct1, THEN mp, OF a]
  show ?thesis
    by (intro conjI) (rule a b)+
qed

section \<open>UpdateAttributes\<close>

text \<open>Writing to a nil map panics, before anything reaches the store.\<close>

lemma UpdateAttributes_nil_map_panics: "UpdateAttributes ctx now sels None c = Panic"
  by (simp add: UpdateAttributes_def)

lemma UpdateAttributes_returns:
  "\<exists>err c'. UpdateAttributes ctx now sels (Some m) c
             = Returns (err, Some (AList.update ''updated_at'' (VTime now) m), c')"
  by (auto simp: UpdateAttributes_def Let_def bson_Unmarshal_def split: sum.splits prod.splits)

text \<open>
  C9. \<open>UpdateAttributes\<close> writes to the caller's attribute map before it serializes it: for
  every (allocated) map the call returns, and after it the caller's map binds \<open>updated_at\<close>
  to the time taken at the call, whatever it held under that key before and whatever the
  outcome of the serialization and of the store call; every other key is as before.
\<close>

theorem UpdateAttributes_writes_updated_at_in_place:
  "(\<exists>err attrs' c'. UpdateAttributes ctx now sels (Some m) c = Returns (err, attrs', c')) \<and>
   (UpdateAttributes ctx now sels (Some m) c = Returns (err, attrs', c') \<longrightarrow>
      (\<exists>m'. attrs' = Some m' \<and> map_of m' ''updated_at'' = Some (VTime now) \<and>
            (\<forall>k. k \<noteq> ''updated_at'' \<longrightarrow> map_of m' k = map_of m k)))"
proof (intro conjI impI)
  show "\<exists>err attrs' c'. UpdateAttributes ctx now sels (Some m) c = Returns (err, attrs', c')"
    using UpdateAttributes_returns by blast
next
  assume r: "UpdateAttributes ctx now sels (Some m) c = Returns (err, attrs', c')"
  obtain e1 c1 where "UpdateAttributes ctx now sels (Some m) c
      = Returns (e1, Some (AList.update ''updated_at'' (VTime now) m), c1)"
    using UpdateAttributes_returns by blast
  with r have a: "attrs' = Some (AList.update ''updated_at'' (VTime now) m)"
    by simp
  have "map_of (AList.update ''updated_at'' (VTime now) m) ''updated_at'' = Some (VTime now)"
    by (simp add: update_conv')
  moreover have "\<forall>k. k \<noteq> ''updated_at'' \<longrightarrow>
      map_of (AList.update ''updated_at'' (VTime now) m) k = map_of m k"
    by (simp add: update_conv')
  ultimately show "\<exists>m'. attrs' = Some m' \<and> map_of m' ''updated_at'' = Some (VTime now) \<and>
            (\<forall>k. k \<noteq> ''updated_at'' \<longrightarrow> map_of m' k = map_of m k)"
    using a by blast
qed

theorem UpdateAttributes_writes_updated_at_in_place_witness:
  "UpdateAttributes Background 10 [(''name'', VStr ''ann'')]
       (Some [(''age'', VChan), (''updated_at'', VInt 0)]) people
     = Returns (Some ErrNoEncoder, Some [(''age'', VChan), (''updated_at'', VTime 10)], people) \<and>
   UpdateAttributes (Ctx 1 True) 10 [(''name'', VStr ''ann'')] (Some [(''age'', VInt 3)]) people
     = Returns (Some ErrContextCanceled, Some [(''age'', VInt 3), (''updated_at'', VTime 10)],
                people\<lparr>calls := [(OpUpdateMany, Ctx 1 True)]\<rparr>) \<and>
   (\<exists>m'. Some [(''age'', VChan), (''updated_at'', VTime 10)] = Some m' \<and>
         map_of m' ''updated_at'' = Some (VTime 10)) \<and>
   (\<exists>m'. Some [(''age'', VInt 3), (''updated_at'', VTime 10)] = Some m' \<and>
         map_of m' ''updated_at'' = Some (VTime 10))"
proof -
  let ?a1 = "[(''age'', VChan), (''updated_at'', VInt 0)]"
  let ?a2 = "[(''age'', VInt 3)]"
  let ?c2 = "people\<lparr>calls := [(OpUpdateMany, Ctx 1 True)]\<rparr>"
  have r1: "UpdateAttributes Background 10 [(''name'', VStr ''ann'')] (Some ?a1) people
     = Returns (Some ErrNoEncoder, Some [(''age'', VChan), (''updated_at'', VTime 10)], people)"
    by (simp add: run_defs)
  have r2: "UpdateAttributes (Ctx 1 True) 10 [(''name'', VStr ''ann'')] (Some ?a2) people
     = Returns (Some ErrContextCanceled, Some [(''age'', VInt 3), (''updated_at'', VTime 10)], ?c2)"
    by (simp add: run_defs)
  note t1 = UpdateAttributes_writes_updated_at_in_place
    [where ctx = Background and now = 10 and sels = "[(''name'', VStr ''ann'')]" and m = ?a1
       and c = people and err = "Some ErrNoEncoder" and c' = people
       and attrs' = "Some [(''age'', VChan), (''updated_at'', VTime 10)]",
     THEN conjunct2, THEN mp, OF r1]
  note t2 = UpdateAttributes_writes_updated_at_in_place
    [where ctx = "Ctx 1 True" and now = 10 and sels = "[(''name'', VStr ''ann'')]" and m = ?a2
       and c = people and err = "Some ErrContextCanceled" and c' = ?c2
       and attrs' = "Some [(''age'', VInt 3), (''updated_at'', VTime 10)]",
     THEN conjunct2, THEN mp, OF r2]
  have w1: "\<exists>m'. Some [(''age'', VChan), (''updated_at'', VTime 10)] = Some m' \<and>
         map_of m' ''updated_at'' = Some (VTime 10)"
    using t1 by (elim exE conjE) (intro exI conjI, assumption+)
  have w2: "\<exists>m'. Some [(''age'', VInt 3), (''updated_at'', VTime 10)] = Some m' \<and>
         map_of m' ''updated_at'' = Some (VTime 10)"
    using t2 by (elim exE conjE) (intro exI conjI, assumption+)
  show ?thesis
    by (intro conjI) (rule r1 r2 w1 w2)+
qed

section \<open>Connect\<close>

text \<open>
  C8. \<open>Connect\<close> makes one attempt: it calls \<open>mongo.Connect\<close> once and, if that
  succeeded, pings once; nothing else reaches the network (no retry, no schema setup). A
  failure of the construction is returned at once, without a ping, and a failure of the
  ping is returned at once; both are errors of the same kind, made by \<open>fmt.Errorf\<close>, that
  differ in the text they carry. When both steps succeed the result is the handle of the
  client for the given database name, with a nil error.
\<close>

theorem Connect_makes_one_attempt:
  "(connect_error n url = Some e \<longrightarrow>
      Connect ctx url name n =
        ((None, Some (ErrMsg (''failed to mongo.Connect: '' @ Error e))),
         n\<lparr>net_calls := net_calls n @ [NetConnect ctx url]\<rparr>)) \<and>
   (connect_error n url = None \<and>
    (if ctx_done ctx then Some ErrContextCanceled else ping_error n url) = Some e \<longrightarrow>
      Connect ctx url name n =
        ((None, Some (ErrMsg (''failed to dbClient.Ping: '' @ Error e))),
         n\<lparr>net_calls := net_calls n @ [NetConnect ctx url, NetPing ctx url]\<rparr>)) \<and>
   (connect_error n url = None \<and> \<not> ctx_done ctx \<and> ping_error n url = None \<longrightarrow>
      Connect ctx url name n =
        ((Some \<lparr>db_client = \<lparr>client_uri = url\<rparr>, db_name = name\<rparr>, None),
         n\<lparr>net_calls := net_calls n @ [NetConnect ctx url, NetPing ctx url]\<rparr>))"
  by (auto simp: Connect_def mongo_Connect_def client_Ping_def client_Database_def fmt_Errorf_def
        Let_def)

theorem Connect_makes_one_attempt_witness:
  "Connect Background ''mongodb://h'' ''shop'' rejecting_network =
     ((None, Some (ErrMsg (''failed to mongo.Connect: '' @ Error ErrInvalidURI))),
      rejecting_network\<lparr>net_calls :=
        net_calls rejecting_network @ [NetConnect Background ''mongodb://h'']\<rparr>) \<and>
   Connect Background ''mongodb://h'' ''shop'' silent_network =
     ((None, Some (ErrMsg (''failed to dbClient.Ping: '' @ Error ErrUnreachable))),
      silent_network\<lparr>net_calls := net_calls silent_network @
        [NetConnect Background ''mongodb://h'', NetPing Background ''mongodb://h'']\<rparr>) \<and>
   Connect Background ''mongodb://h'' ''shop'' good_network =
     ((Some \<lparr>db_client = \<lparr>client_uri = ''mongodb://h''\<rparr>, db_name = ''shop''\<rparr>, None),
      good_network\<lparr>net_calls := net_calls good_network @
        [NetConnect Background ''mongodb://h'', NetPing Background ''mongodb://h'']\<rparr>)"
proof -
  have a: "connect_error rejecting_network ''mongodb://h'' = Some ErrInvalidURI"
    by (simp add: rejecting_network_def)
  have b: "connect_error silent_network ''mongodb://h'' = None \<and>
           (if ctx_done Background then Some ErrContextCanceled
            else ping_error silent_network ''mongodb://h'') = Some ErrUnreachable"
    by (simp add: silent_network_def)
  have c: "connect_error good_network ''mongodb://h'' = None \<and> \<not> ctx_done Background \<and>
           ping_error good_network ''mongodb://h'' = None"
    by (simp add: good_network_def)
  note t1 = Connect_makes_one_attempt
    [where n = rejecting_network and url = "''mongodb://h''" and e = ErrInvalidURI
       and ctx = Background and name = "''shop''", THEN conjunct1, THEN mp, OF a]
  note t2 = Connect_makes_one_attempt
    [where n = silent_network and url = "''mongodb://h''" and e = ErrUnreachable
       and ctx = Background and name = "''shop''", THEN conjunct2, THEN conjunct1, THEN mp, OF b]
  note t3 = Connect_makes_one_attempt
    [where n = good_network and url = "''mongodb://h''"
       and ctx = Background and name = "''shop''", THEN conjunct2, THEN conjunct2, THEN mp, OF c]
  show ?thesis
    by (intro conjI) (rule t1 t2 t3)+
qed

end
